theory Spec2Isabelle
  imports Main "HOL-Library.Word"
begin

section \<open>Data model\<close>

text \<open>
  The Go program \<^verbatim>\<open>dcrlnhub\<close> queries a dcrlnd node over gRPC and renders one page.
  Go's \<^verbatim>\<open>uint32\<close> and \<^verbatim>\<open>int64\<close> are words of that width (addition wraps, \<open>sint\<close> reads an
  \<^verbatim>\<open>int64\<close>); Go strings are \<open>string\<close>; a slice that is only read is a list.
\<close>

type_synonym uint32 = "32 word"
type_synonym int64 = "64 word"

text \<open>
  An \<^verbatim>\<open>error\<close> built by \<^verbatim>\<open>fmt.Errorf\<close> without \<^verbatim>\<open>%w\<close> is a value that holds only its message,
  so an error returned by the program is its message. A call of the program ends in one of
  three ways: it returns a value, it returns an error, or it panics (a run-time panic
  unwinds the caller as well).
\<close>

datatype failure = Error string | Panic string

text \<open>The parts of the \<^verbatim>\<open>lnrpc\<close> messages that the program reads.\<close>

record Chain =
  Chain :: string
  Network :: string

record GetInfoResponse =
  IdentityPubkey :: string
  Alias :: string
  NumActiveChannels :: uint32
  Uris :: "string list"
  Chains :: "Chain list"

record Channel =
  Active :: bool
  RemotePubkey :: string
  ChannelPoint :: string
  Capacity :: int64

record ListChannelsResponse =
  Channels :: "Channel list"

record WalletBalanceResponse =
  TotalBalance :: int64
  ConfirmedBalance :: int64
  UnconfirmedBalance :: int64

text \<open>
  \<^verbatim>\<open>lnrpc.LightningClient\<close> is an interface to the remote node. The program calls each of the
  three queries at most once in a run of \<^verbatim>\<open>fetchHomePage\<close>, so within a run the client is what
  each query answers when it is called: the error's message (\<open>Inl\<close>) or the response.
\<close>

record LightningClient =
  GetInfo :: "string + GetInfoResponse"
  ListChannels :: "string + ListChannelsResponse"
  WalletBalance :: "string + WalletBalanceResponse"

record config =
  ConfigFile :: string
  BindAddr :: string
  RPCHost :: string
  TLSCertPath :: string
  MacaroonPath :: string
  UseLeHTTPS :: bool
  Domain :: string
  Network :: string
  MainNet :: bool
  TestNet :: bool
  SimNet :: bool

record templateContext =
  NodeAddr :: string
  Network :: string
  ChannelsCount :: uint32
  Capacity :: int64
  Balance :: int64
  ActiveChannels :: "Channel list"
  DonationAddr :: string
  DonationInvoice :: string

text \<open>
  What a run does besides returning: the queries it sends to the node, the calls of the
  logger, the lines it prints on standard error and the set-up of the logger, in order.
\<close>

datatype rpc = GetInfoCall | ListChannelsCall | WalletBalanceCall

datatype level = LvlInfo | LvlWarn | LvlError | LvlCritical

datatype logarg = Str string | U32 uint32

datatype event =
    Call rpc
  | Log level logarg
  | Stderr string
  | InitLogRotator string
  | SetLogLevels string

section \<open>The state aggregator: fetchHomePage\<close>

text \<open>
  \<^verbatim>\<open>for _, channel := range listChanRes.Channels { totalCapacity += channel.Capacity }\<close>
  with the accumulator \<^verbatim>\<open>var totalCapacity int64\<close>.
\<close>

fun sumCapacity :: "int64 \<Rightarrow> Channel list \<Rightarrow> int64" where
  "sumCapacity totalCapacity [] = totalCapacity"
| "sumCapacity totalCapacity (channel # rest) =
     sumCapacity (totalCapacity + Channel.Capacity channel) rest"

definition getInfoFailed :: "string \<Rightarrow> string" where
  "getInfoFailed err = ''rpc GetInfo() failed: '' @ err"

definition listChannelsFailed :: "string \<Rightarrow> string" where
  "listChannelsFailed err = ''rpc ListChannels() failed: '' @ err"

definition walletBalanceFailed :: "string \<Rightarrow> string" where
  "walletBalanceFailed err = ''rpc WalletBalance() failed: '' @ err"

definition differentNetworks :: "string \<Rightarrow> string \<Rightarrow> string" where
  "differentNetworks activeNetwork cfgNetwork =
     ''dcrlnd and dcrlnhub are set in different networks <dcrlnd: '' @ activeNetwork @
     '' / dcrlnhub: '' @ cfgNetwork @ ''>''"

definition noUriWarning :: string where
  "noUriWarning =
     ''nodeInfo did not include a URI. external_ip config of dcrlnd is probably not set''"

definition indexOutOfRange :: string where
  "indexOutOfRange = ''runtime error: index out of range [0] with length 0''"

text \<open>
  \<^verbatim>\<open>fetchHomePage\<close>, statement by statement. The first component is the trace of the run, the
  second its outcome. \<^verbatim>\<open>nodeInfo.Chains[0]\<close> on an empty slice is Go's index-out-of-range
  panic.
\<close>

definition fetchHomePage ::
  "LightningClient \<Rightarrow> config \<Rightarrow> event list \<times> (failure + templateContext)" where
  "fetchHomePage lnd cfg =
     (case GetInfo lnd of
        Inl err \<Rightarrow> ([Call GetInfoCall], Inl (Error (getInfoFailed err)))
      | Inr nodeInfo \<Rightarrow>
         (case Chains nodeInfo of
            [] \<Rightarrow> ([Call GetInfoCall], Inl (Panic indexOutOfRange))
          | chain0 # _ \<Rightarrow>
             (let activeNetwork = Chain.Network chain0 in
              if activeNetwork \<noteq> config.Network cfg
              then ([Call GetInfoCall],
                    Inl (Error (differentNetworks activeNetwork (config.Network cfg))))
              else
               (let (uriLog, nodeAddr) =
                      (case Uris nodeInfo of
                         [] \<Rightarrow> ([Log LvlWarn (Str noUriWarning)], [])
                       | uri0 # _ \<Rightarrow> ([], uri0))
                in case ListChannels lnd of
                     Inl err \<Rightarrow>
                       (Call GetInfoCall # uriLog @ [Call ListChannelsCall],
                        Inl (Error (listChannelsFailed err)))
                   | Inr listChanRes \<Rightarrow>
                      (let totalCapacity = sumCapacity 0 (Channels listChanRes)
                       in case WalletBalance lnd of
                            Inl err \<Rightarrow>
                              (Call GetInfoCall # uriLog @
                                 [Call ListChannelsCall, Call WalletBalanceCall],
                               Inl (Error (walletBalanceFailed err)))
                          | Inr walletBalanceRes \<Rightarrow>
                              (Call GetInfoCall # uriLog @
                                 [Call ListChannelsCall, Call WalletBalanceCall,
                                  Log LvlWarn (U32 (NumActiveChannels nodeInfo))],
                               Inr \<lparr>NodeAddr = nodeAddr,
                                    templateContext.Network = activeNetwork,
                                    ChannelsCount = NumActiveChannels nodeInfo,
                                    Capacity = totalCapacity,
                                    Balance = ConfirmedBalance walletBalanceRes,
                                    ActiveChannels = Channels listChanRes,
                                    DonationAddr = [],
                                    DonationInvoice = []\<rparr>))))))"

text \<open>The answer a query gave, and whether a run sent it and got an error back.\<close>

fun rpcFailed :: "LightningClient \<Rightarrow> rpc \<Rightarrow> bool" where
  "rpcFailed lnd GetInfoCall = isl (GetInfo lnd)"
| "rpcFailed lnd ListChannelsCall = isl (ListChannels lnd)"
| "rpcFailed lnd WalletBalanceCall = isl (WalletBalance lnd)"

definition queryReturnedError :: "LightningClient \<Rightarrow> event list \<Rightarrow> bool" where
  "queryReturnedError lnd trace = (\<exists>q \<in> set trace. case q of Call r \<Rightarrow> rpcFailed lnd r | _ \<Rightarrow> False)"

section \<open>The page request handler: HomePage\<close>

text \<open>
  A \<^verbatim>\<open>*template.Template\<close> is a set of named templates; \<^verbatim>\<open>Lookup\<close> finds one by name or
  returns nil. Rendering belongs to \<^verbatim>\<open>html/template\<close>: the model records which template was
  executed and on which data.
\<close>

type_synonym Template = "string list"

definition Lookup :: "Template \<Rightarrow> string \<Rightarrow> string option" where
  "Lookup t name = (if name \<in> set t then Some name else None)"

text \<open>The field \<^verbatim>\<open>context\<close> of the hub is \<open>homeContext\<close> here.\<close>

record lightningHub =
  lnd :: LightningClient
  template :: Template
  cfg :: config
  homeContext :: templateContext

record Request =
  Method :: string
  Path :: string

datatype response = Executed string templateContext | HttpError string nat

text \<open>
  \<^verbatim>\<open>HomePage\<close> returns nothing: its outcome is what it wrote to the \<^verbatim>\<open>ResponseWriter\<close>, or the
  panic of \<^verbatim>\<open>fetchHomePage\<close>, which the handler does not recover.
\<close>

definition HomePage :: "lightningHub \<Rightarrow> Request \<Rightarrow> event list \<times> (failure + response)" where
  "HomePage h r =
     (case Lookup (template h) ''index.html'' of
        None \<Rightarrow>
          ([Log LvlError (Str ''unable to lookup index'')],
           Inr (HttpError ''500 Internal Server Error.'' 500))
      | Some homeTemplate \<Rightarrow>
         (case fetchHomePage (lnd h) (cfg h) of
            (trace, Inl (Panic p)) \<Rightarrow> (trace, Inl (Panic p))
          | (trace, Inl (Error err)) \<Rightarrow>
              (trace @ [Log LvlError (Str ''unable to fetch home state'')],
               Inr (HttpError ''unable to render home page'' 500))
          | (trace, Inr homeInfo) \<Rightarrow>
              if Method r = ''GET''
              then (trace, Inr (Executed homeTemplate homeInfo))
              else (trace, Inr (HttpError ''Method not allowed!'' 405))))"

text \<open>
  \<^verbatim>\<open>r.HandleFunc("/", hub.HomePage).Methods("POST", "GET")\<close> in \<^verbatim>\<open>main\<close>: the route hands a
  request to \<^verbatim>\<open>HomePage\<close> when its path is \<^verbatim>\<open>/\<close> and its method is one of the two registered;
  \<open>None\<close> is a request that this route does not hand to the handler.
\<close>

definition homeRouteMethods :: "string list" where
  "homeRouteMethods = [''POST'', ''GET'']"

definition homeRoute ::
  "lightningHub \<Rightarrow> Request \<Rightarrow> (event list \<times> (failure + response)) option" where
  "homeRoute h r =
     (if Path r = ''/'' \<and> Method r \<in> set homeRouteMethods then Some (HomePage h r) else None)"

section \<open>The secure channel builder: newLightningHub\<close>






section \<open>Configuration: loadConfig\<close>

text \<open>
  The errors \<^verbatim>\<open>loadConfig\<close> tells apart by type: a \<^verbatim>\<open>*flags.Error\<close> (which is the help
  request or not), an \<^verbatim>\<open>*os.PathError\<close> (operation, path, cause), and any other error.
\<close>

datatype goError = FlagsErr bool string | PathErr string string string | PlainErr string

fun errorMessage :: "goError \<Rightarrow> string" where
  "errorMessage (FlagsErr _ msg) = msg"
| "errorMessage (PathErr op path cause) = op @ '' '' @ path @ '': '' @ cause"
| "errorMessage (PlainErr msg) = msg"

fun isHelp :: "goError \<Rightarrow> bool" where
  "isHelp (FlagsErr help _) = help"
| "isHelp _ = False"

fun isPathError :: "goError \<Rightarrow> bool" where
  "isPathError (PathErr _ _ _) = True"
| "isPathError _ = False"

text \<open>
  What a run of the \<^verbatim>\<open>go-flags\<close> parser found: a value for each option that the command
  line or the file gives, \<open>None\<close> for an option that is absent. The parser writes the options
  found into the struct and leaves the other fields alone; \<^verbatim>\<open>Network\<close> carries no
  \<^verbatim>\<open>short\<close> or \<^verbatim>\<open>long\<close> tag, so it is not an option and no parser writes it.
\<close>

record options =
  optConfigFile :: "string option"
  optBindAddr :: "string option"
  optRPCHost :: "string option"
  optTLSCertPath :: "string option"
  optMacaroonPath :: "string option"
  optUseLeHTTPS :: "bool option"
  optDomain :: "string option"
  optMainNet :: "bool option"
  optTestNet :: "bool option"
  optSimNet :: "bool option"

definition orElse :: "'a option \<Rightarrow> 'a \<Rightarrow> 'a" where
  "orElse found old = (case found of None \<Rightarrow> old | Some v \<Rightarrow> v)"

definition applyOptions :: "options \<Rightarrow> config \<Rightarrow> config" where
  "applyOptions opts c =
     c\<lparr>ConfigFile := orElse (optConfigFile opts) (ConfigFile c),
       BindAddr := orElse (optBindAddr opts) (BindAddr c),
       RPCHost := orElse (optRPCHost opts) (RPCHost c),
       TLSCertPath := orElse (optTLSCertPath opts) (TLSCertPath c),
       MacaroonPath := orElse (optMacaroonPath opts) (MacaroonPath c),
       UseLeHTTPS := orElse (optUseLeHTTPS opts) (UseLeHTTPS c),
       Domain := orElse (optDomain opts) (Domain c),
       MainNet := orElse (optMainNet opts) (MainNet c),
       TestNet := orElse (optTestNet opts) (TestNet c),
       SimNet := orElse (optSimNet opts) (SimNet c)\<rparr>"

text \<open>
  \<^verbatim>\<open>strings.Replace(s, old, new, 1)\<close>: the first occurrence of \<open>old\<close> in \<open>s\<close> becomes \<open>new\<close>;
  a string without \<open>old\<close> is returned as it is.
\<close>

fun Replace1 :: "string \<Rightarrow> string \<Rightarrow> string \<Rightarrow> string" where
  "Replace1 [] old new = (if old = [] then new else [])"
| "Replace1 (c # cs) old new =
     (if take (length old) (c # cs) = old then new @ drop (length old) (c # cs)
      else c # Replace1 cs old new)"

text \<open>
  What \<^verbatim>\<open>loadConfig\<close> gets from outside: the package-level defaults (computed by
  \<^verbatim>\<open>dcrutil.AppDataDir\<close> and \<^verbatim>\<open>filepath.Join\<close> when the program starts), the program's name
  without its extension, the outcome of the three parser runs, and the file system.
  A parser that fails may have written some options before it failed, so the first run
  gives both. What the parser library prints by itself is not part of the trace.
\<close>

record loadEnv =
  defaultDataDir :: string
  defaultConfigFile :: string
  defaultLogPath :: string
  defaultDcrlndTLSCertPath :: string
  defaultDcrlndMacaroonPath :: string
  appName :: string
  preParse :: "options \<times> goError option"
  iniParseFile :: "string \<Rightarrow> goError + options"
  cmdParse :: "goError + options \<times> string list"
  MkdirAll :: "string \<Rightarrow> goError option"
  IsExist :: "goError \<Rightarrow> bool"
  Readlink :: "string \<Rightarrow> string + string"

definition defaultLogLevel :: string where
  "defaultLogLevel = ''info''"

definition defaultBindAddr :: string where
  "defaultBindAddr = '':80''"

definition defaultUseLeHTTPS :: bool where
  "defaultUseLeHTTPS = False"

definition funcName :: string where
  "funcName = ''loadConfig''"

definition tooManyNets :: string where
  "tooManyNets =
     funcName @ '', mainnet, testnet and simnet params can't be used together '' @
     ''-- choose one of the three''"

definition domainMissing :: string where
  "domainMissing = funcName @ '': domain must be specified to use Let's Encrypt HTTPS''"

definition homeDirCause :: "loadEnv \<Rightarrow> goError \<Rightarrow> string" where
  "homeDirCause env err =
     (case err of
        PathErr op path cause \<Rightarrow>
          if IsExist env err
          then (case Readlink env path of
                  Inr link \<Rightarrow> ''is symlink '' @ path @ '' -> '' @ link @ '' mounted?''
                | Inl _ \<Rightarrow> errorMessage err)
          else errorMessage err
      | _ \<Rightarrow> errorMessage err)"

text \<open>
  \<^verbatim>\<open>loadConfig\<close>. The result is the trace, the value of the package variable
  \<^verbatim>\<open>defaultLogPath\<close> after the run, and the returned error or the configuration with the
  remaining arguments.
\<close>

definition loadConfig ::
  "loadEnv \<Rightarrow> event list \<times> string \<times> (goError + config \<times> string list)" where
  "loadConfig env =
     (let cfg0 = \<lparr>ConfigFile = [], BindAddr = defaultBindAddr, RPCHost = [],
                  TLSCertPath = defaultDcrlndTLSCertPath env,
                  MacaroonPath = defaultDcrlndMacaroonPath env,
                  UseLeHTTPS = defaultUseLeHTTPS, Domain = [], config.Network = [],
                  MainNet = False, TestNet = False, SimNet = False\<rparr>;
          preCfg = applyOptions (fst (preParse env)) cfg0
      in case (case snd (preParse env) of
                 Some err \<Rightarrow> if isHelp err then Some err else None
               | None \<Rightarrow> None) of
           Some err \<Rightarrow> ([Stderr (errorMessage err)], defaultLogPath env, Inl err)
         | None \<Rightarrow>
      (let usageMessage = ''Use '' @ appName env @ '' -h to show usage'';
           configFile = (if ConfigFile preCfg = [] then defaultConfigFile env
                         else ConfigFile preCfg);
           iniResult = iniParseFile env configFile
       in case (case iniResult of
                  Inl err \<Rightarrow> if \<not> isPathError err then Some err else None
                | Inr _ \<Rightarrow> None) of
            Some err \<Rightarrow>
              ([Stderr (''Error parsing config file: '' @ errorMessage err),
                Stderr usageMessage],
               defaultLogPath env, Inl err)
          | None \<Rightarrow>
      (let configFileError = (case iniResult of Inl err \<Rightarrow> Some err | Inr _ \<Rightarrow> None);
           cfg1 = (case iniResult of Inl _ \<Rightarrow> cfg0 | Inr opts \<Rightarrow> applyOptions opts cfg0)
       in case cmdParse env of
            Inl err \<Rightarrow>
              (if \<not> isHelp err then [Stderr (errorMessage err @ '' '' @ usageMessage)]
               else [],
               defaultLogPath env, Inl err)
          | Inr (opts, remainingArgs) \<Rightarrow>
      (let cfg2 = applyOptions opts cfg1;
           (numNets1, cfg3) =
              (if MainNet cfg2 then (1::nat, cfg2\<lparr>config.Network := ''mainnet''\<rparr>)
               else (0, cfg2));
           (numNets2, cfg4) =
              (if TestNet cfg3 then (numNets1 + 1, cfg3\<lparr>config.Network := ''testnet''\<rparr>)
               else (numNets1, cfg3));
           (numNets, cfg5) =
              (if SimNet cfg4 then (numNets2 + 1, cfg4\<lparr>config.Network := ''simnet''\<rparr>)
               else (numNets2, cfg4))
       in if numNets > 1
          then ([Stderr tooManyNets, Stderr usageMessage], defaultLogPath env,
                Inl (PlainErr tooManyNets))
          else
      (let cfg6 = cfg5\<lparr>TLSCertPath :=
                         Replace1 (TLSCertPath cfg5) ''testnet'' (config.Network cfg5)\<rparr>;
           cfg7 = cfg6\<lparr>MacaroonPath :=
                         Replace1 (MacaroonPath cfg6) ''testnet'' (config.Network cfg6)\<rparr>
       in case MkdirAll env (defaultDataDir env) of
            Some err \<Rightarrow>
              (let msg = funcName @ '': Failed to create home directory: '' @
                         homeDirCause env err
               in ([Stderr msg], defaultLogPath env, Inl (PlainErr msg)))
          | None \<Rightarrow>
      (let logPath = Replace1 (defaultLogPath env) ''testnet'' (config.Network cfg7);
           logSetup = [InitLogRotator logPath, SetLogLevels defaultLogLevel]
       in if UseLeHTTPS cfg7 \<and> Domain cfg7 = []
          then (logSetup @ [Stderr domainMissing], logPath, Inl (PlainErr domainMissing))
          else (logSetup @
                  (case configFileError of
                     Some err \<Rightarrow> [Log LvlWarn (Str (errorMessage err))]
                   | None \<Rightarrow> []),
                logPath, Inr (cfg7, remainingArgs))))))))"

section \<open>Scenario data\<close>

text \<open>
  The node of the specification's scenario: network \<^verbatim>\<open>testnet\<close>, two channels of capacity
  500000 and 1500000, confirmed balance 750000; and a hub configured for \<^verbatim>\<open>testnet\<close>.
\<close>

definition scenarioInfo :: GetInfoResponse where
  "scenarioInfo =
     \<lparr>IdentityPubkey = ''03ab'', Alias = ''hub'', NumActiveChannels = 2,
      Uris = [''03ab@203.0.113.7:9735''],
      Chains = [\<lparr>Chain = ''decred'', Chain.Network = ''testnet''\<rparr>]\<rparr>"

definition scenarioChannels :: ListChannelsResponse where
  "scenarioChannels =
     \<lparr>Channels =
        [\<lparr>Active = True, RemotePubkey = ''02c1'', ChannelPoint = ''a1:0'',
          Channel.Capacity = 500000\<rparr>,
         \<lparr>Active = True, RemotePubkey = ''02c2'', ChannelPoint = ''b2:1'',
          Channel.Capacity = 1500000\<rparr>]\<rparr>"

definition scenarioBalance :: WalletBalanceResponse where
  "scenarioBalance =
     \<lparr>TotalBalance = 800000, ConfirmedBalance = 750000, UnconfirmedBalance = 50000\<rparr>"

definition scenarioClient :: LightningClient where
  "scenarioClient =
     \<lparr>GetInfo = Inr scenarioInfo, ListChannels = Inr scenarioChannels,
      WalletBalance = Inr scenarioBalance\<rparr>"

definition scenarioConfig :: config where
  "scenarioConfig =
     \<lparr>ConfigFile = [], BindAddr = '':80'', RPCHost = ''127.0.0.1:10009'',
      TLSCertPath = ''/home/hub/.dcrlnd/tls.cert'',
      MacaroonPath = ''/home/hub/.dcrlnd/data/chain/decred/testnet/admin.macaroon'',
      UseLeHTTPS = False, Domain = [], config.Network = ''testnet'',
      MainNet = False, TestNet = True, SimNet = False\<rparr>"

text \<open>A node whose two channels have capacity \<open>2 ^ 62\<close> each.\<close>

definition overflowChannels :: ListChannelsResponse where
  "overflowChannels =
     \<lparr>Channels =
        [\<lparr>Active = True, RemotePubkey = ''02c1'', ChannelPoint = ''a1:0'',
          Channel.Capacity = 4611686018427387904\<rparr>,
         \<lparr>Active = True, RemotePubkey = ''02c2'', ChannelPoint = ''b2:1'',
          Channel.Capacity = 4611686018427387904\<rparr>]\<rparr>"

text \<open>
  A hub for the scenario's node whose template set holds \<^verbatim>\<open>index.html\<close>, a \<^verbatim>\<open>POST\<close> request
  for the home page, and an outside world in which the certificate and the macaroon load
  and the dial reaches the scenario's node.
\<close>

definition scenarioSnapshot :: templateContext where
  "scenarioSnapshot =
     \<lparr>NodeAddr = ''03ab@203.0.113.7:9735'', templateContext.Network = ''testnet'',
      ChannelsCount = 2, Capacity = 2000000, Balance = 750000,
      ActiveChannels = Channels scenarioChannels,
      DonationAddr = [], DonationInvoice = []\<rparr>"

definition scenarioHub :: lightningHub where
  "scenarioHub =
     \<lparr>lnd = scenarioClient, template = [''index.html''], cfg = scenarioConfig,
      homeContext = scenarioSnapshot\<rparr>"

definition postRequest :: Request where
  "postRequest = \<lparr>Method = ''POST'', Path = ''/''\<rparr>"



text \<open>
  A start of the program with no option at all and no configuration file: the parsers
  find nothing, the file is missing, the home directory can be created.
\<close>

definition noOptions :: options where
  "noOptions =
     \<lparr>optConfigFile = None, optBindAddr = None, optRPCHost = None, optTLSCertPath = None,
      optMacaroonPath = None, optUseLeHTTPS = None, optDomain = None, optMainNet = None,
      optTestNet = None, optSimNet = None\<rparr>"

definition plainEnv :: loadEnv where
  "plainEnv =
     \<lparr>defaultDataDir = ''/home/hub/.dcrlnhub'',
      defaultConfigFile = ''/home/hub/.dcrlnhub/dcrlnhub.conf'',
      defaultLogPath = ''/home/hub/.dcrlnhub/logs/decred/testnet/dcrlnhub.log'',
      defaultDcrlndTLSCertPath = ''/home/hub/.dcrlnd/tls.cert'',
      defaultDcrlndMacaroonPath =
        ''/home/hub/.dcrlnd/data/chain/decred/testnet/admin.macaroon'',
      appName = ''dcrlnhub'',
      preParse = (noOptions, None),
      iniParseFile = (\<lambda>file. Inl (PathErr ''open'' file ''no such file or directory'')),
      cmdParse = Inr (noOptions, []),
      MkdirAll = (\<lambda>dir. None),
      IsExist = (\<lambda>err. False),
      Readlink = (\<lambda>path. Inl ''invalid argument'')\<rparr>"

definition plainConfig :: config where
  "plainConfig =
     \<lparr>ConfigFile = [], BindAddr = '':80'', RPCHost = [],
      TLSCertPath = ''/home/hub/.dcrlnd/tls.cert'',
      MacaroonPath = ''/home/hub/.dcrlnd/data/chain/decred//admin.macaroon'',
      UseLeHTTPS = False, Domain = [], config.Network = [],
      MainNet = False, TestNet = False, SimNet = False\<rparr>"

text \<open>A node with one channel of the largest \<^verbatim>\<open>int64\<close> capacity and one of capacity 1.\<close>

definition maxChannels :: ListChannelsResponse where
  "maxChannels =
     \<lparr>Channels =
        [\<lparr>Active = True, RemotePubkey = ''02c1'', ChannelPoint = ''a1:0'',
          Channel.Capacity = 9223372036854775807\<rparr>,
         \<lparr>Active = True, RemotePubkey = ''02c2'', ChannelPoint = ''b2:1'',
          Channel.Capacity = 1\<rparr>]\<rparr>"

text \<open>
  A start with \<^verbatim>\<open>--use_le_https --domain=hub.example.org\<close> on the command line, no network
  flag and no configuration file.
\<close>

definition httpsOptions :: options where
  "httpsOptions = noOptions\<lparr>optUseLeHTTPS := Some True, optDomain := Some ''hub.example.org''\<rparr>"

definition httpsEnv :: loadEnv where
  "httpsEnv = plainEnv\<lparr>cmdParse := Inr (httpsOptions, [])\<rparr>"

section \<open>Auxiliary facts\<close>

text \<open>A run returns a snapshot exactly when the three queries succeed, the node names a
  chain and the first chain's network is the configured one; the snapshot is then fixed.\<close>

lemma fetchHomePage_success:
  assumes "GetInfo client = Inr nodeInfo" "Chains nodeInfo = chain0 # others"
    "Chain.Network chain0 = config.Network conf"
    "ListChannels client = Inr listChanRes" "WalletBalance client = Inr walletBalanceRes"
  shows "snd (fetchHomePage client conf) =
     Inr \<lparr>NodeAddr = (case Uris nodeInfo of [] \<Rightarrow> [] | uri0 # _ \<Rightarrow> uri0),
          templateContext.Network = Chain.Network chain0,
          ChannelsCount = NumActiveChannels nodeInfo,
          Capacity = sumCapacity 0 (Channels listChanRes),
          Balance = ConfirmedBalance walletBalanceRes,
          ActiveChannels = Channels listChanRes,
          DonationAddr = [],
          DonationInvoice = []\<rparr>"
  using assms by (simp add: fetchHomePage_def split: list.splits)

lemma fetchHomePage_InrD:
  assumes "snd (fetchHomePage client conf) = Inr ctx"
  shows "\<exists>nodeInfo chain0 others listChanRes walletBalanceRes.
     GetInfo client = Inr nodeInfo \<and> Chains nodeInfo = chain0 # others \<and>
     Chain.Network chain0 = config.Network conf \<and>
     ListChannels client = Inr listChanRes \<and> WalletBalance client = Inr walletBalanceRes \<and>
     ctx = \<lparr>NodeAddr = (case Uris nodeInfo of [] \<Rightarrow> [] | uri0 # _ \<Rightarrow> uri0),
            templateContext.Network = Chain.Network chain0,
            ChannelsCount = NumActiveChannels nodeInfo,
            Capacity = sumCapacity 0 (Channels listChanRes),
            Balance = ConfirmedBalance walletBalanceRes,
            ActiveChannels = Channels listChanRes,
            DonationAddr = [],
            DonationInvoice = []\<rparr>"
  using assms
  by (auto simp add: fetchHomePage_def Let_def
      split: sum.splits list.splits if_splits prod.splits)

text \<open>The loop adds the capacities to the accumulator, in \<^verbatim>\<open>int64\<close> arithmetic.\<close>

lemma sumCapacity_sum_list:
  "sumCapacity acc chans = acc + sum_list (map Channel.Capacity chans)"
  by (induction chans arbitrary: acc) (simp_all add: add.assoc)

lemma signed_take_bit_add_right:
  "signed_take_bit n (k + signed_take_bit n l) = signed_take_bit n (k + l)" for k l :: int
proof -
  have "signed_take_bit n (k + signed_take_bit n l) =
        signed_take_bit n (signed_take_bit n k + signed_take_bit n (signed_take_bit n l))"
    by (simp only: signed_take_bit_add)
  also have "\<dots> = signed_take_bit n (signed_take_bit n k + signed_take_bit n l)"
    by simp
  also have "\<dots> = signed_take_bit n (k + l)"
    by (simp only: signed_take_bit_add)
  finally show ?thesis .
qed

text \<open>An \<^verbatim>\<open>int64\<close> sum, read as a signed number, is the sum of the signed numbers wrapped
  into the range from \<open>- 2 ^ 63\<close> to \<open>2 ^ 63 - 1\<close>.\<close>

lemma sint_sum_list:
  "sint (sum_list ws) = signed_take_bit 63 (sum_list (map sint ws))" for ws :: "int64 list"
proof (induction ws)
  case Nil
  show ?case by simp
next
  case (Cons w ws)
  have "sint (w + sum_list ws) = signed_take_bit 63 (sint w + sint (sum_list ws))"
    by (simp add: sint_word_ariths)
  also have "\<dots> = signed_take_bit 63 (sint w + sum_list (map sint ws))"
    unfolding Cons.IH by (rule signed_take_bit_add_right)
  finally show ?case by simp
qed

text \<open>What a parser run changes, field by field, and what the check of the network does
  when no network is configured.\<close>

lemma applyOptions_fields:
  "config.Network (applyOptions found c) = config.Network c"
  "MainNet (applyOptions found c) = orElse (optMainNet found) (MainNet c)"
  "TestNet (applyOptions found c) = orElse (optTestNet found) (TestNet c)"
  "SimNet (applyOptions found c) = orElse (optSimNet found) (SimNet c)"
  "UseLeHTTPS (applyOptions found c) = orElse (optUseLeHTTPS found) (UseLeHTTPS c)"
  "TLSCertPath (applyOptions found c) = orElse (optTLSCertPath found) (TLSCertPath c)"
  "MacaroonPath (applyOptions found c) = orElse (optMacaroonPath found) (MacaroonPath c)"
  "ConfigFile (applyOptions found c) = orElse (optConfigFile found) (ConfigFile c)"
  by (simp_all add: applyOptions_def)

lemma orElse_None: "orElse None old = old"
  by (simp add: orElse_def)

lemma fetchHomePage_unlabelled:
  assumes "config.Network c = []" "GetInfo client = Inr nodeInfo"
    "Chains nodeInfo = chain0 # others" "Chain.Network chain0 \<noteq> []"
  shows "snd (fetchHomePage client c) =
                Inl (Error (differentNetworks (Chain.Network chain0) []))"
  using assms by (simp add: fetchHomePage_def)

text \<open>
  \<open>Replace1\<close> replaces the first occurrence: when \<open>old\<close> starts at no position before the
  end of \<open>pre\<close>, the occurrence after \<open>pre\<close> is the one replaced; a string in which \<open>old\<close>
  starts nowhere is unchanged.
\<close>

lemma Replace1_first:
  assumes "old \<noteq> []"
    and "\<forall>i<length pre. take (length old) (drop i (pre @ old @ post)) \<noteq> old"
  shows "Replace1 (pre @ old @ post) old new = pre @ new @ post"
  using assms(2)
proof (induction pre)
  case Nil
  from assms(1) obtain c cs where "old @ post = c # cs"
    by (cases old) auto
  moreover have "take (length old) (old @ post) = old" "drop (length old) (old @ post) = post"
    by simp_all
  ultimately show ?case
    by (metis Replace1.simps(2) append_Nil)
next
  case (Cons p pre)
  from Cons.prems have head: "take (length old) (p # pre @ old @ post) \<noteq> old"
    by (metis append_Cons drop0 length_greater_0_conv list.distinct(1))
  from Cons.prems have "\<forall>i<length pre. take (length old) (drop i (pre @ old @ post)) \<noteq> old"
    by (metis Suc_less_eq append_Cons drop_Suc_Cons length_Cons)
  from Cons.IH [OF this] head show ?case
    by simp
qed

lemma Replace1_absent:
  assumes "old \<noteq> []"
    and "\<forall>i<length s. take (length old) (drop i s) \<noteq> old"
  shows "Replace1 s old new = s"
  using assms(2)
proof (induction s)
  case Nil
  with assms(1) show ?case by simp
next
  case (Cons c cs)
  from Cons.prems have head: "take (length old) (c # cs) \<noteq> old"
    by (metis drop0 length_greater_0_conv list.distinct(1))
  from Cons.prems have "\<forall>i<length cs. take (length old) (drop i cs) \<noteq> old"
    by (metis Suc_less_eq drop_Suc_Cons length_Cons)
  from Cons.IH [OF this] head show ?case
    by simp
qed

section \<open>The claims about fetchHomePage\<close>

text \<open>
  C1. No partial snapshot. If any of the three queries answers with an error, the run of
  \<^verbatim>\<open>fetchHomePage\<close> returns no snapshot at all; and in every run in which a query that was
  sent came back with an error, the call returns an error (and no snapshot).
\<close>

theorem fetchHomePage_no_partial_snapshot:
  "(isl (GetInfo client) \<or> isl (ListChannels client) \<or> isl (WalletBalance client)
      \<longrightarrow> isl (snd (fetchHomePage client conf))) \<and>
   (queryReturnedError client (fst (fetchHomePage client conf))
      \<longrightarrow> (\<exists>msg. snd (fetchHomePage client conf) = Inl (Error msg)))"
  by (auto simp add: fetchHomePage_def queryReturnedError_def Let_def
      split: sum.splits list.splits if_splits prod.splits)

theorem fetchHomePage_no_partial_snapshot_witness:
  "isl (ListChannels (scenarioClient\<lparr>ListChannels := Inl ''unavailable''\<rparr>)) \<and>
   queryReturnedError (scenarioClient\<lparr>ListChannels := Inl ''unavailable''\<rparr>)
     (fst (fetchHomePage (scenarioClient\<lparr>ListChannels := Inl ''unavailable''\<rparr>)
        scenarioConfig)) \<and>
   isl (snd (fetchHomePage (scenarioClient\<lparr>ListChannels := Inl ''unavailable''\<rparr>)
        scenarioConfig)) \<and>
   (\<exists>msg. snd (fetchHomePage (scenarioClient\<lparr>ListChannels := Inl ''unavailable''\<rparr>)
        scenarioConfig) = Inl (Error msg))"
  using fetchHomePage_no_partial_snapshot
    [of "scenarioClient\<lparr>ListChannels := Inl ''unavailable''\<rparr>" scenarioConfig]
  by (simp add: fetchHomePage_def queryReturnedError_def scenarioClient_def
      scenarioInfo_def scenarioConfig_def)

text \<open>
  C2. Network mismatch. When the node answers \<^verbatim>\<open>GetInfo\<close> with a first chain entry,
  \<^verbatim>\<open>fetchHomePage\<close> returns the error whose message is
  \<^verbatim>\<open>dcrlnd and dcrlnhub are set in different networks <dcrlnd: R / dcrlnhub: E>\<close>, with \<open>R\<close>
  the label the node reported and \<open>E\<close> the configured one, if and only if the two labels
  differ as strings. No run returns an error of that form, for any labels, unless \<^verbatim>\<open>GetInfo\<close>
  succeeded and the reported label differs from the configured one. A failed query gives
  the message \<^verbatim>\<open>rpc GetInfo() failed: ...\<close>, \<^verbatim>\<open>rpc ListChannels() failed: ...\<close> or
  \<^verbatim>\<open>rpc WalletBalance() failed: ...\<close>, and none of these is a mismatch message.
\<close>

theorem fetchHomePage_network_mismatch_iff:
  assumes "GetInfo client = Inr nodeInfo" and "Chains nodeInfo = chain0 # others"
  shows "(snd (fetchHomePage client conf) =
            Inl (Error (''dcrlnd and dcrlnhub are set in different networks <dcrlnd: '' @
                        Chain.Network chain0 @ '' / dcrlnhub: '' @ config.Network conf @
                        ''>'')))
          = (Chain.Network chain0 \<noteq> config.Network conf) \<and>
         (\<forall>client' conf' reported expected.
            snd (fetchHomePage client' conf') =
              Inl (Error (''dcrlnd and dcrlnhub are set in different networks <dcrlnd: '' @
                          reported @ '' / dcrlnhub: '' @ expected @ ''>'')) \<longrightarrow>
            (\<exists>nodeInfo' chain0' others'.
               GetInfo client' = Inr nodeInfo' \<and> Chains nodeInfo' = chain0' # others' \<and>
               Chain.Network chain0' \<noteq> config.Network conf')) \<and>
         (\<forall>client' conf' err.
            GetInfo client' = Inl err \<longrightarrow>
            snd (fetchHomePage client' conf') =
              Inl (Error (''rpc GetInfo() failed: '' @ err))) \<and>
         (Chain.Network chain0 = config.Network conf \<longrightarrow>
            (\<forall>err. ListChannels client = Inl err \<longrightarrow>
               snd (fetchHomePage client conf) =
                 Inl (Error (''rpc ListChannels() failed: '' @ err))) \<and>
            (\<forall>err listChanRes.
               ListChannels client = Inr listChanRes \<and> WalletBalance client = Inl err \<longrightarrow>
               snd (fetchHomePage client conf) =
                 Inl (Error (''rpc WalletBalance() failed: '' @ err)))) \<and>
         (\<forall>reported expected err.
            ''dcrlnd and dcrlnhub are set in different networks <dcrlnd: '' @
              reported @ '' / dcrlnhub: '' @ expected @ ''>'' \<noteq>
              ''rpc GetInfo() failed: '' @ err \<and>
            ''dcrlnd and dcrlnhub are set in different networks <dcrlnd: '' @
              reported @ '' / dcrlnhub: '' @ expected @ ''>'' \<noteq>
              ''rpc ListChannels() failed: '' @ err \<and>
            ''dcrlnd and dcrlnhub are set in different networks <dcrlnd: '' @
              reported @ '' / dcrlnhub: '' @ expected @ ''>'' \<noteq>
              ''rpc WalletBalance() failed: '' @ err)"
proof (intro conjI)
  show "(snd (fetchHomePage client conf) =
            Inl (Error (''dcrlnd and dcrlnhub are set in different networks <dcrlnd: '' @
                        Chain.Network chain0 @ '' / dcrlnhub: '' @ config.Network conf @
                        ''>'')))
          = (Chain.Network chain0 \<noteq> config.Network conf)"
    using assms
    by (auto simp add: fetchHomePage_def Let_def differentNetworks_def
        listChannelsFailed_def walletBalanceFailed_def
        split: sum.splits list.splits prod.splits)
  show "\<forall>client' conf' reported expected.
            snd (fetchHomePage client' conf') =
              Inl (Error (''dcrlnd and dcrlnhub are set in different networks <dcrlnd: '' @
                          reported @ '' / dcrlnhub: '' @ expected @ ''>'')) \<longrightarrow>
            (\<exists>nodeInfo' chain0' others'.
               GetInfo client' = Inr nodeInfo' \<and> Chains nodeInfo' = chain0' # others' \<and>
               Chain.Network chain0' \<noteq> config.Network conf')"
    by (auto simp add: fetchHomePage_def Let_def getInfoFailed_def
        listChannelsFailed_def walletBalanceFailed_def
        split: sum.splits list.splits prod.splits if_splits)
  show "\<forall>client' conf' err.
            GetInfo client' = Inl err \<longrightarrow>
            snd (fetchHomePage client' conf') =
              Inl (Error (''rpc GetInfo() failed: '' @ err))"
    by (simp add: fetchHomePage_def getInfoFailed_def)
  show "Chain.Network chain0 = config.Network conf \<longrightarrow>
            (\<forall>err. ListChannels client = Inl err \<longrightarrow>
               snd (fetchHomePage client conf) =
                 Inl (Error (''rpc ListChannels() failed: '' @ err))) \<and>
            (\<forall>err listChanRes.
               ListChannels client = Inr listChanRes \<and> WalletBalance client = Inl err \<longrightarrow>
               snd (fetchHomePage client conf) =
                 Inl (Error (''rpc WalletBalance() failed: '' @ err)))"
    using assms
    by (auto simp add: fetchHomePage_def Let_def listChannelsFailed_def
        walletBalanceFailed_def split: list.splits prod.splits)
  show "\<forall>reported expected err.
            ''dcrlnd and dcrlnhub are set in different networks <dcrlnd: '' @
              reported @ '' / dcrlnhub: '' @ expected @ ''>'' \<noteq>
              ''rpc GetInfo() failed: '' @ err \<and>
            ''dcrlnd and dcrlnhub are set in different networks <dcrlnd: '' @
              reported @ '' / dcrlnhub: '' @ expected @ ''>'' \<noteq>
              ''rpc ListChannels() failed: '' @ err \<and>
            ''dcrlnd and dcrlnhub are set in different networks <dcrlnd: '' @
              reported @ '' / dcrlnhub: '' @ expected @ ''>'' \<noteq>
              ''rpc WalletBalance() failed: '' @ err"
    by simp
qed

theorem fetchHomePage_network_mismatch_iff_witness:
  "GetInfo (scenarioClient\<lparr>GetInfo := Inr (scenarioInfo
      \<lparr>Chains := [\<lparr>Chain = ''decred'', Chain.Network = ''mainnet''\<rparr>]\<rparr>)\<rparr>) =
     Inr (scenarioInfo\<lparr>Chains := [\<lparr>Chain = ''decred'', Chain.Network = ''mainnet''\<rparr>]\<rparr>) \<and>
   Chains (scenarioInfo\<lparr>Chains := [\<lparr>Chain = ''decred'', Chain.Network = ''mainnet''\<rparr>]\<rparr>) =
     \<lparr>Chain = ''decred'', Chain.Network = ''mainnet''\<rparr> # [] \<and>
   snd (fetchHomePage (scenarioClient\<lparr>GetInfo := Inr (scenarioInfo
      \<lparr>Chains := [\<lparr>Chain = ''decred'', Chain.Network = ''mainnet''\<rparr>]\<rparr>)\<rparr>) scenarioConfig) =
     Inl (Error
       ''dcrlnd and dcrlnhub are set in different networks <dcrlnd: mainnet / dcrlnhub: testnet>'')"
  using fetchHomePage_network_mismatch_iff
    [of "scenarioClient\<lparr>GetInfo := Inr (scenarioInfo
           \<lparr>Chains := [\<lparr>Chain = ''decred'', Chain.Network = ''mainnet''\<rparr>]\<rparr>)\<rparr>"
        "scenarioInfo\<lparr>Chains := [\<lparr>Chain = ''decred'', Chain.Network = ''mainnet''\<rparr>]\<rparr>"
        "\<lparr>Chain = ''decred'', Chain.Network = ''mainnet''\<rparr>" "[]" scenarioConfig]
  by (simp add: scenarioClient_def scenarioInfo_def scenarioConfig_def)

text \<open>
  C3. Empty chain list. The claim asks for an error of the \<^verbatim>\<open>info\<close> call. The code reads
  \<^verbatim>\<open>nodeInfo.Chains[0]\<close> without looking at the length, although it does look at the length
  of \<^verbatim>\<open>nodeInfo.Uris\<close> a few lines below: for the scenario's node with no chain entry the
  run sends \<^verbatim>\<open>GetInfo\<close> and then panics; it returns no error.
\<close>

theorem fetchHomePage_empty_chains_panics:
  "fetchHomePage (scenarioClient\<lparr>GetInfo := Inr (scenarioInfo\<lparr>Chains := []\<rparr>)\<rparr>)
     scenarioConfig =
     ([Call GetInfoCall],
      Inl (Panic ''runtime error: index out of range [0] with length 0''))"
  by (simp add: fetchHomePage_def scenarioClient_def indexOutOfRange_def)

text \<open>
  C4. Aggregate capacity. As stated, with the sum of the capacities for every channel list,
  the claim fails: the field is an \<^verbatim>\<open>int64\<close> and the loop's addition wraps. For a channel of
  capacity \<open>2 ^ 63 - 1\<close> and one of capacity 1 the sum is \<open>2 ^ 63\<close> and the snapshot's
  capacity reads \<open>- 2 ^ 63\<close>.
\<close>

theorem fetchHomePage_capacity_sum_wraps:
  "snd (fetchHomePage (scenarioClient\<lparr>ListChannels := Inr maxChannels\<rparr>) scenarioConfig) =
     Inr \<lparr>NodeAddr = ''03ab@203.0.113.7:9735'', templateContext.Network = ''testnet'',
          ChannelsCount = 2, Capacity = 9223372036854775808, Balance = 750000,
          ActiveChannels = Channels maxChannels,
          DonationAddr = [], DonationInvoice = []\<rparr> \<and>
   sint (9223372036854775808 :: int64) = - 9223372036854775808 \<and>
   sum_list (map sint (map Channel.Capacity (Channels maxChannels))) = 9223372036854775808"
  by (simp add: fetchHomePage_def scenarioClient_def scenarioInfo_def scenarioConfig_def
      maxChannels_def scenarioBalance_def)

text \<open>
  C4, amended. For every channel list that \<^verbatim>\<open>ListChannels\<close> returns, every snapshot of the
  run has as \<^verbatim>\<open>Capacity\<close> the sum of the channels' capacities in \<^verbatim>\<open>int64\<close> arithmetic: read
  as a signed number it is the mathematical sum wrapped into the range of \<^verbatim>\<open>int64\<close>, hence
  the mathematical sum itself whenever that lies between \<open>- 2 ^ 63\<close> and \<open>2 ^ 63 - 1\<close>, and
  0 for the empty list. \<^verbatim>\<open>ActiveChannels\<close> is the list itself, in the node's order. The run
  does return a snapshot when the other two queries succeed and the network is the
  configured one.
\<close>

theorem fetchHomePage_capacity_sum:
  assumes "ListChannels client = Inr listChanRes"
  shows "(\<forall>ctx. snd (fetchHomePage client conf) = Inr ctx \<longrightarrow>
            templateContext.Capacity ctx =
              sum_list (map Channel.Capacity (Channels listChanRes)) \<and>
            sint (templateContext.Capacity ctx) =
              signed_take_bit 63
                (sum_list (map sint (map Channel.Capacity (Channels listChanRes)))) \<and>
            (- (2 ^ 63) \<le> sum_list (map sint (map Channel.Capacity (Channels listChanRes))) \<and>
             sum_list (map sint (map Channel.Capacity (Channels listChanRes))) < 2 ^ 63 \<longrightarrow>
             sint (templateContext.Capacity ctx) =
               sum_list (map sint (map Channel.Capacity (Channels listChanRes)))) \<and>
            (Channels listChanRes = [] \<longrightarrow> templateContext.Capacity ctx = 0) \<and>
            ActiveChannels ctx = Channels listChanRes) \<and>
         ((\<exists>nodeInfo chain0 others walletBalanceRes.
             GetInfo client = Inr nodeInfo \<and> Chains nodeInfo = chain0 # others \<and>
             Chain.Network chain0 = config.Network conf \<and>
             WalletBalance client = Inr walletBalanceRes)
          \<longrightarrow> (\<exists>ctx. snd (fetchHomePage client conf) = Inr ctx))"
proof (intro conjI allI impI)
  fix ctx
  assume "snd (fetchHomePage client conf) = Inr ctx"
  from fetchHomePage_InrD [OF this] assms
  have ctx: "templateContext.Capacity ctx = sumCapacity 0 (Channels listChanRes)"
    "ActiveChannels ctx = Channels listChanRes"
    by auto
  show word: "templateContext.Capacity ctx =
      sum_list (map Channel.Capacity (Channels listChanRes))"
    by (simp add: ctx sumCapacity_sum_list)
  show wrapped: "sint (templateContext.Capacity ctx) =
      signed_take_bit 63 (sum_list (map sint (map Channel.Capacity (Channels listChanRes))))"
    unfolding word by (rule sint_sum_list)
  show "ActiveChannels ctx = Channels listChanRes"
    by (rule ctx)
  {
    assume "- (2 ^ 63) \<le> sum_list (map sint (map Channel.Capacity (Channels listChanRes))) \<and>
             sum_list (map sint (map Channel.Capacity (Channels listChanRes))) < 2 ^ 63"
    then show "sint (templateContext.Capacity ctx) =
               sum_list (map sint (map Channel.Capacity (Channels listChanRes)))"
      unfolding wrapped by (simp add: signed_take_bit_int_eq_self)
  }
  assume "Channels listChanRes = []"
  then show "templateContext.Capacity ctx = 0"
    by (simp add: ctx)
next
  assume "\<exists>nodeInfo chain0 others walletBalanceRes.
             GetInfo client = Inr nodeInfo \<and> Chains nodeInfo = chain0 # others \<and>
             Chain.Network chain0 = config.Network conf \<and>
             WalletBalance client = Inr walletBalanceRes"
  then show "\<exists>ctx. snd (fetchHomePage client conf) = Inr ctx"
    using assms fetchHomePage_success by blast
qed

theorem fetchHomePage_capacity_sum_witness:
  "ListChannels scenarioClient = Inr scenarioChannels \<and>
   snd (fetchHomePage scenarioClient scenarioConfig) = Inr scenarioSnapshot \<and>
   templateContext.Capacity scenarioSnapshot = 2000000 \<and>
   sum_list (map Channel.Capacity (Channels scenarioChannels)) = 2000000 \<and>
   sum_list (map sint (map Channel.Capacity (Channels scenarioChannels))) = 2000000 \<and>
   ActiveChannels scenarioSnapshot = Channels scenarioChannels"
  using fetchHomePage_capacity_sum [of scenarioClient scenarioChannels scenarioConfig]
  by (simp add: fetchHomePage_def scenarioClient_def scenarioInfo_def scenarioConfig_def
      scenarioChannels_def scenarioBalance_def scenarioSnapshot_def)

text \<open>
  C6. Exactness of the sum. The accumulator is an \<^verbatim>\<open>int64\<close> and Go's addition wraps. As
  stated, for any list of capacities, the claim fails: two channels of capacity \<open>2 ^ 62\<close>
  have the sum \<open>2 ^ 63\<close>, and the snapshot's capacity is \<open>- 2 ^ 63\<close>.
\<close>

theorem fetchHomePage_capacity_wraps:
  "snd (fetchHomePage (scenarioClient\<lparr>ListChannels := Inr overflowChannels\<rparr>)
     scenarioConfig) =
     Inr \<lparr>NodeAddr = ''03ab@203.0.113.7:9735'', templateContext.Network = ''testnet'',
          ChannelsCount = 2, Capacity = 9223372036854775808, Balance = 750000,
          ActiveChannels = Channels overflowChannels,
          DonationAddr = [], DonationInvoice = []\<rparr> \<and>
   sint (9223372036854775808 :: int64) = - 9223372036854775808 \<and>
   sum_list (map sint (map Channel.Capacity (Channels overflowChannels))) =
     9223372036854775808"
  by (simp add: fetchHomePage_def scenarioClient_def scenarioInfo_def scenarioConfig_def
      overflowChannels_def scenarioBalance_def)

text \<open>
  C6, amended. The snapshot's capacity is the mathematical sum of the channels' capacities
  wrapped into the range of \<^verbatim>\<open>int64\<close>; it is the exact sum whenever that sum lies between
  \<open>- 2 ^ 63\<close> and \<open>2 ^ 63 - 1\<close>, a range that holds the currency's whole supply
  (\<open>21 * 10 ^ 14\<close> atoms).
\<close>

theorem fetchHomePage_capacity_exact_in_range:
  assumes "snd (fetchHomePage client conf) = Inr ctx"
    and "ListChannels client = Inr listChanRes"
  shows "sint (templateContext.Capacity ctx) =
           signed_take_bit 63
             (\<Sum>channel\<leftarrow>Channels listChanRes. sint (Channel.Capacity channel)) \<and>
         (- (2 ^ 63) \<le> (\<Sum>channel\<leftarrow>Channels listChanRes. sint (Channel.Capacity channel)) \<and>
          (\<Sum>channel\<leftarrow>Channels listChanRes. sint (Channel.Capacity channel)) < 2 ^ 63 \<longrightarrow>
          sint (templateContext.Capacity ctx) =
            (\<Sum>channel\<leftarrow>Channels listChanRes. sint (Channel.Capacity channel)))"
proof -
  from fetchHomePage_InrD [OF assms(1)] assms(2)
  have "templateContext.Capacity ctx = sumCapacity 0 (Channels listChanRes)"
    by auto
  then have "sint (templateContext.Capacity ctx) =
      signed_take_bit 63 (\<Sum>channel\<leftarrow>Channels listChanRes. sint (Channel.Capacity channel))"
    by (simp add: sumCapacity_sum_list sint_sum_list comp_def)
  then show ?thesis
    by (simp add: signed_take_bit_int_eq_self)
qed

theorem fetchHomePage_capacity_exact_in_range_witness:
  "snd (fetchHomePage scenarioClient scenarioConfig) = Inr scenarioSnapshot \<and>
   ListChannels scenarioClient = Inr scenarioChannels \<and>
   sum_list (map sint (map Channel.Capacity (Channels scenarioChannels))) = 2000000 \<and>
   sint (templateContext.Capacity scenarioSnapshot) = 2000000"
  using fetchHomePage_capacity_exact_in_range
    [of scenarioClient scenarioConfig scenarioSnapshot scenarioChannels]
  by (simp add: fetchHomePage_def scenarioClient_def scenarioInfo_def scenarioConfig_def
      scenarioChannels_def scenarioBalance_def scenarioSnapshot_def)

text \<open>
  C7. No external URI. Let \<^verbatim>\<open>GetInfo\<close> succeed with the configured network. With an empty
  list of URIs the run logs the warning and goes on to \<^verbatim>\<open>ListChannels\<close>; every logger call
  of the run is at warning level; and when the two other queries succeed the run returns a
  snapshot whose node address is empty for an empty list and the first URI otherwise.
\<close>

theorem fetchHomePage_no_uri_is_a_warning:
  assumes "GetInfo client = Inr nodeInfo" and "Chains nodeInfo = chain0 # others"
    and "Chain.Network chain0 = config.Network conf"
  shows "(Uris nodeInfo = [] \<longrightarrow>
            Log LvlWarn (Str noUriWarning) \<in> set (fst (fetchHomePage client conf)) \<and>
            Call ListChannelsCall \<in> set (fst (fetchHomePage client conf))) \<and>
         (\<forall>lvl arg. Log lvl arg \<in> set (fst (fetchHomePage client conf)) \<longrightarrow> lvl = LvlWarn) \<and>
         (\<forall>listChanRes walletBalanceRes.
            ListChannels client = Inr listChanRes \<and>
            WalletBalance client = Inr walletBalanceRes \<longrightarrow>
            (\<exists>ctx. snd (fetchHomePage client conf) = Inr ctx \<and>
               (Uris nodeInfo = [] \<longrightarrow> NodeAddr ctx = []) \<and>
               (\<forall>uri0 rest. Uris nodeInfo = uri0 # rest \<longrightarrow> NodeAddr ctx = uri0)))"
  using assms
  by (auto simp add: fetchHomePage_def Let_def split: sum.splits list.splits prod.splits)

theorem fetchHomePage_no_uri_is_a_warning_witness:
  "GetInfo (scenarioClient\<lparr>GetInfo := Inr (scenarioInfo\<lparr>Uris := []\<rparr>)\<rparr>) =
     Inr (scenarioInfo\<lparr>Uris := []\<rparr>) \<and>
   Chains (scenarioInfo\<lparr>Uris := []\<rparr>) =
     \<lparr>Chain = ''decred'', Chain.Network = ''testnet''\<rparr> # [] \<and>
   Chain.Network \<lparr>Chain = ''decred'', Chain.Network = ''testnet''\<rparr> =
     config.Network scenarioConfig \<and>
   Uris (scenarioInfo\<lparr>Uris := []\<rparr>) = [] \<and>
   fetchHomePage (scenarioClient\<lparr>GetInfo := Inr (scenarioInfo\<lparr>Uris := []\<rparr>)\<rparr>) scenarioConfig =
     ([Call GetInfoCall, Log LvlWarn (Str noUriWarning), Call ListChannelsCall,
       Call WalletBalanceCall, Log LvlWarn (U32 2)],
      Inr (scenarioSnapshot\<lparr>NodeAddr := []\<rparr>))"
  using fetchHomePage_no_uri_is_a_warning
    [of "scenarioClient\<lparr>GetInfo := Inr (scenarioInfo\<lparr>Uris := []\<rparr>)\<rparr>"
        "scenarioInfo\<lparr>Uris := []\<rparr>" "\<lparr>Chain = ''decred'', Chain.Network = ''testnet''\<rparr>"
        "[]" scenarioConfig]
  by (simp add: fetchHomePage_def scenarioClient_def scenarioInfo_def scenarioConfig_def
      scenarioChannels_def scenarioBalance_def scenarioSnapshot_def)

text \<open>
  C8. The channel count. In every snapshot \<^verbatim>\<open>ChannelsCount\<close> is the \<^verbatim>\<open>NumActiveChannels\<close> of
  the \<^verbatim>\<open>GetInfo\<close> response, whatever \<^verbatim>\<open>ListChannels\<close> answers; and there is a run whose
  snapshot has a count different from the length of its channel list.
\<close>

theorem fetchHomePage_channel_count_from_info:
  "(snd (fetchHomePage client conf) = Inr ctx \<longrightarrow>
      (\<exists>nodeInfo. GetInfo client = Inr nodeInfo \<and>
         ChannelsCount ctx = NumActiveChannels nodeInfo) \<and>
      (\<forall>answer ctx'.
         snd (fetchHomePage (client\<lparr>ListChannels := answer\<rparr>) conf) = Inr ctx' \<longrightarrow>
         ChannelsCount ctx' = ChannelsCount ctx)) \<and>
   (\<exists>client' conf' ctx'. snd (fetchHomePage client' conf') = Inr ctx' \<and>
      unat (ChannelsCount ctx') \<noteq> length (ActiveChannels ctx'))"
proof (intro conjI impI allI)
  assume ok: "snd (fetchHomePage client conf) = Inr ctx"
  from fetchHomePage_InrD [OF ok]
  obtain nodeInfo where info: "GetInfo client = Inr nodeInfo"
    "ChannelsCount ctx = NumActiveChannels nodeInfo"
    by auto
  then show "\<exists>nodeInfo. GetInfo client = Inr nodeInfo \<and>
         ChannelsCount ctx = NumActiveChannels nodeInfo"
    by blast
  fix answer ctx'
  assume "snd (fetchHomePage (client\<lparr>ListChannels := answer\<rparr>) conf) = Inr ctx'"
  from fetchHomePage_InrD [OF this] info
  show "ChannelsCount ctx' = ChannelsCount ctx"
    by auto
next
  have "snd (fetchHomePage (scenarioClient\<lparr>ListChannels := Inr \<lparr>Channels = []\<rparr>\<rparr>)
          scenarioConfig) =
        Inr \<lparr>NodeAddr = ''03ab@203.0.113.7:9735'', templateContext.Network = ''testnet'',
             ChannelsCount = 2, Capacity = 0, Balance = 750000, ActiveChannels = [],
             DonationAddr = [], DonationInvoice = []\<rparr>"
    by (simp add: fetchHomePage_def scenarioClient_def scenarioInfo_def scenarioConfig_def
        scenarioBalance_def)
  then show "\<exists>client' conf' ctx'. snd (fetchHomePage client' conf') = Inr ctx' \<and>
      unat (ChannelsCount ctx') \<noteq> length (ActiveChannels ctx')"
    by (intro exI conjI, assumption) simp
qed

theorem fetchHomePage_channel_count_from_info_witness:
  "snd (fetchHomePage (scenarioClient\<lparr>ListChannels := Inr \<lparr>Channels = []\<rparr>\<rparr>)
     scenarioConfig) =
     Inr \<lparr>NodeAddr = ''03ab@203.0.113.7:9735'', templateContext.Network = ''testnet'',
          ChannelsCount = 2, Capacity = 0, Balance = 750000, ActiveChannels = [],
          DonationAddr = [], DonationInvoice = []\<rparr> \<and>
   GetInfo (scenarioClient\<lparr>ListChannels := Inr \<lparr>Channels = []\<rparr>\<rparr>) = Inr scenarioInfo \<and>
   NumActiveChannels scenarioInfo = 2"
  using fetchHomePage_channel_count_from_info
    [of "scenarioClient\<lparr>ListChannels := Inr \<lparr>Channels = []\<rparr>\<rparr>" scenarioConfig
        "\<lparr>NodeAddr = ''03ab@203.0.113.7:9735'', templateContext.Network = ''testnet'',
          ChannelsCount = 2, Capacity = 0, Balance = 750000, ActiveChannels = [],
          DonationAddr = [], DonationInvoice = []\<rparr>"]
  by (simp add: fetchHomePage_def scenarioClient_def scenarioInfo_def scenarioConfig_def
      scenarioBalance_def)

section \<open>The claim about HomePage\<close>

text \<open>
  C5. Methods. As stated the claim fails: the route registered in \<^verbatim>\<open>main\<close> hands a \<^verbatim>\<open>POST\<close>
  request to \<^verbatim>\<open>HomePage\<close>, and the handler fetches the home state, with all three queries,
  before it looks at the method; only then does it answer 405.
\<close>

theorem HomePage_post_fetches:
  "Method postRequest \<noteq> ''GET'' \<and>
   homeRoute scenarioHub postRequest =
     Some ([Call GetInfoCall, Call ListChannelsCall, Call WalletBalanceCall,
            Log LvlWarn (U32 2)],
           Inr (HttpError ''Method not allowed!'' 405))"
  by (simp add: homeRoute_def homeRouteMethods_def HomePage_def Lookup_def postRequest_def
      scenarioHub_def fetchHomePage_def scenarioClient_def scenarioInfo_def
      scenarioConfig_def)

text \<open>
  C5, amended. Only \<^verbatim>\<open>GET\<close> renders the page: for a request whose method is not \<^verbatim>\<open>GET\<close> the
  handler never executes the template. When the template \<^verbatim>\<open>index.html\<close> exists it runs
  \<^verbatim>\<open>fetchHomePage\<close> first, whatever the method, and answers 405 exactly when that fetch
  returned a snapshot. The route keeps every method other than \<^verbatim>\<open>GET\<close> and \<^verbatim>\<open>POST\<close> away from
  the handler, and hands a \<^verbatim>\<open>POST\<close> for the path \<^verbatim>\<open>/\<close> to it.
\<close>

theorem HomePage_non_get:
  assumes "Method r \<noteq> ''GET''"
  shows "(\<forall>name homeInfo. snd (HomePage h r) \<noteq> Inr (Executed name homeInfo)) \<and>
         (Lookup (template h) ''index.html'' \<noteq> None \<longrightarrow>
            (\<exists>rest. fst (HomePage h r) = fst (fetchHomePage (lnd h) (cfg h)) @ rest)) \<and>
         (snd (HomePage h r) = Inr (HttpError ''Method not allowed!'' 405)) =
            (Lookup (template h) ''index.html'' \<noteq> None \<and>
             (\<exists>homeInfo. snd (fetchHomePage (lnd h) (cfg h)) = Inr homeInfo)) \<and>
         (Method r \<noteq> ''POST'' \<longrightarrow> homeRoute h r = None) \<and>
         (Method r = ''POST'' \<and> Path r = ''/'' \<longrightarrow> homeRoute h r = Some (HomePage h r))"
  using assms
  by (auto simp add: HomePage_def homeRoute_def homeRouteMethods_def
      split: option.splits prod.splits sum.splits failure.splits)

theorem HomePage_non_get_witness:
  "Method postRequest \<noteq> ''GET'' \<and>
   Lookup (template scenarioHub) ''index.html'' \<noteq> None \<and>
   snd (fetchHomePage (lnd scenarioHub) (cfg scenarioHub)) = Inr scenarioSnapshot \<and>
   snd (HomePage scenarioHub postRequest) = Inr (HttpError ''Method not allowed!'' 405) \<and>
   homeRoute scenarioHub postRequest = Some (HomePage scenarioHub postRequest)"
  using HomePage_non_get [of postRequest scenarioHub]
  by (simp add: Lookup_def postRequest_def scenarioHub_def fetchHomePage_def
      scenarioClient_def scenarioInfo_def scenarioConfig_def scenarioSnapshot_def
      scenarioBalance_def scenarioChannels_def)

section \<open>The claim about newLightningHub\<close>



section \<open>The claim about loadConfig\<close>

text \<open>
  C9. No network flag. As stated the claim fails in its last part: with no flag the
  configured network is the empty string, and a node whose first chain entry reports the
  empty label passes the check; for that node \<^verbatim>\<open>fetchHomePage\<close> returns a snapshot.
\<close>

theorem loadConfig_empty_label_passes:
  "loadConfig plainEnv =
     ([InitLogRotator ''/home/hub/.dcrlnhub/logs/decred//dcrlnhub.log'',
       SetLogLevels ''info'',
       Log LvlWarn
         (Str ''open /home/hub/.dcrlnhub/dcrlnhub.conf: no such file or directory'')],
      ''/home/hub/.dcrlnhub/logs/decred//dcrlnhub.log'', Inr (plainConfig, [])) \<and>
   MainNet plainConfig = False \<and> TestNet plainConfig = False \<and> SimNet plainConfig = False \<and>
   fetchHomePage
     (scenarioClient\<lparr>GetInfo := Inr (scenarioInfo
        \<lparr>Chains := [\<lparr>Chain = ''decred'', Chain.Network = []\<rparr>]\<rparr>)\<rparr>) plainConfig =
     ([Call GetInfoCall, Call ListChannelsCall, Call WalletBalanceCall, Log LvlWarn (U32 2)],
      Inr (scenarioSnapshot\<lparr>templateContext.Network := []\<rparr>))"
  by (simp add: loadConfig_def plainEnv_def plainConfig_def noOptions_def applyOptions_def
      orElse_def defaultBindAddr_def defaultUseLeHTTPS_def defaultLogLevel_def
      fetchHomePage_def scenarioClient_def scenarioInfo_def scenarioSnapshot_def
      scenarioChannels_def scenarioBalance_def Let_def)

text \<open>
  C9, amended. Let \<open>parsed\<close> be the configuration after the three parser runs (the defaults,
  then the options of the configuration file that is used, then those of the command line).
  Let the parsers succeed (a missing configuration file is no failure), let none of
  \<^verbatim>\<open>MainNet\<close>, \<^verbatim>\<open>TestNet\<close>, \<^verbatim>\<open>SimNet\<close> be set in \<open>parsed\<close>, let the home directory be created
  and let the HTTPS check pass (HTTPS off, or a domain given). Then \<^verbatim>\<open>loadConfig\<close> succeeds
  with \<^verbatim>\<open>Network\<close> empty; the log path, the certificate path and the macaroon path (the
  default ones when no parser gave another) have their first \<^verbatim>\<open>testnet\<close> replaced by the
  empty string; and the network check of \<^verbatim>\<open>fetchHomePage\<close> fails, with the mismatch error,
  for every node whose reported label is not empty. Replacing the first \<^verbatim>\<open>testnet\<close> by the
  empty string turns \<open>pre @ ''testnet'' @ post\<close> into \<open>pre @ post\<close> when \<^verbatim>\<open>testnet\<close> starts at
  no earlier position, and leaves a path without \<^verbatim>\<open>testnet\<close> as it is.
\<close>

theorem loadConfig_no_network_flag:
  assumes initial: "initial =
      \<lparr>ConfigFile = [], BindAddr = defaultBindAddr, RPCHost = [],
       TLSCertPath = defaultDcrlndTLSCertPath env,
       MacaroonPath = defaultDcrlndMacaroonPath env,
       UseLeHTTPS = defaultUseLeHTTPS, Domain = [], config.Network = [],
       MainNet = False, TestNet = False, SimNet = False\<rparr>"
    and used: "configFile =
      (if ConfigFile (applyOptions (fst (preParse env)) initial) = []
       then defaultConfigFile env
       else ConfigFile (applyOptions (fst (preParse env)) initial))"
    and parsed: "parsed =
      applyOptions opts
        (case iniParseFile env configFile of
           Inl _ \<Rightarrow> initial
         | Inr found \<Rightarrow> applyOptions found initial)"
    and pre: "\<forall>err. snd (preParse env) = Some err \<longrightarrow> \<not> isHelp err"
    and ini: "\<forall>err. iniParseFile env configFile = Inl err \<longrightarrow> isPathError err"
    and cmd: "cmdParse env = Inr (opts, remainingArgs)"
    and flags: "\<not> MainNet parsed" "\<not> TestNet parsed" "\<not> SimNet parsed"
    and https: "\<not> (UseLeHTTPS parsed \<and> Domain parsed = [])"
    and dir: "MkdirAll env (defaultDataDir env) = None"
  shows "\<exists>trace c.
           loadConfig env =
             (trace, Replace1 (defaultLogPath env) ''testnet'' [], Inr (c, remainingArgs)) \<and>
           c = parsed\<lparr>TLSCertPath := Replace1 (TLSCertPath parsed) ''testnet'' [],
                      MacaroonPath := Replace1 (MacaroonPath parsed) ''testnet'' []\<rparr> \<and>
           config.Network c = [] \<and> \<not> MainNet c \<and> \<not> TestNet c \<and> \<not> SimNet c \<and>
           (optTLSCertPath opts = None \<and>
            (\<forall>found. iniParseFile env configFile = Inr found \<longrightarrow> optTLSCertPath found = None)
            \<longrightarrow> TLSCertPath c = Replace1 (defaultDcrlndTLSCertPath env) ''testnet'' []) \<and>
           (optMacaroonPath opts = None \<and>
            (\<forall>found. iniParseFile env configFile = Inr found \<longrightarrow> optMacaroonPath found = None)
            \<longrightarrow> MacaroonPath c = Replace1 (defaultDcrlndMacaroonPath env) ''testnet'' []) \<and>
           (\<forall>client nodeInfo chain0 others.
              GetInfo client = Inr nodeInfo \<and> Chains nodeInfo = chain0 # others \<and>
              Chain.Network chain0 \<noteq> [] \<longrightarrow>
              snd (fetchHomePage client c) =
                Inl (Error (''dcrlnd and dcrlnhub are set in different networks <dcrlnd: '' @
                            Chain.Network chain0 @ '' / dcrlnhub: >''))) \<and>
           (\<forall>pre post.
              (\<forall>i<length pre. take 7 (drop i (pre @ ''testnet'' @ post)) \<noteq> ''testnet'') \<longrightarrow>
              Replace1 (pre @ ''testnet'' @ post) ''testnet'' [] = pre @ post) \<and>
           (\<forall>path.
              (\<forall>i<length path. take 7 (drop i path) \<noteq> ''testnet'') \<longrightarrow>
              Replace1 path ''testnet'' [] = path)"
proof -
  define cfg1 where "cfg1 =
     (case iniParseFile env configFile of Inl _ \<Rightarrow> initial | Inr found \<Rightarrow> applyOptions found initial)"
  have parsed': "parsed = applyOptions opts cfg1"
    by (simp add: parsed cfg1_def)
  have noHelp: "(case snd (preParse env) of
                 Some err \<Rightarrow> if isHelp err then Some err else None
               | None \<Rightarrow> None) = None"
    using pre by (simp split: option.splits)
  have noFatal: "(case iniParseFile env configFile of
                  Inl err \<Rightarrow> if \<not> isPathError err then Some err else None
                | Inr _ \<Rightarrow> None) = None"
    using ini by (cases "iniParseFile env configFile") simp_all
  have net1: "config.Network cfg1 = []"
    by (simp add: cfg1_def initial applyOptions_fields split: sum.splits)
  have net: "config.Network parsed = []"
    by (simp add: parsed' applyOptions_fields net1)
  have flags': "MainNet parsed = False" "TestNet parsed = False" "SimNet parsed = False"
    using flags by simp_all
  define c where "c = parsed\<lparr>TLSCertPath := Replace1 (TLSCertPath parsed) ''testnet'' [],
                         MacaroonPath := Replace1 (MacaroonPath parsed) ''testnet'' []\<rparr>"
  have https': "\<not> (UseLeHTTPS parsed \<and> Domain parsed = [])"
    by (rule https)
  have run: "\<exists>trace. loadConfig env =
      (trace, Replace1 (defaultLogPath env) ''testnet'' [], Inr (c, remainingArgs))"
    unfolding loadConfig_def Let_def initial [symmetric]
    unfolding used [symmetric] noHelp noFatal option.case cmd sum.case prod.case
    unfolding cfg1_def [symmetric]
    unfolding parsed' [symmetric]
    using https' by (simp add: flags' net dir c_def)
  then obtain trace where run': "loadConfig env =
      (trace, Replace1 (defaultLogPath env) ''testnet'' [], Inr (c, remainingArgs))"
    by blast
  have c: "config.Network c = []" "\<not> MainNet c" "\<not> TestNet c" "\<not> SimNet c"
    by (simp_all add: c_def net flags')
  have certDefault: "optTLSCertPath opts = None \<and>
            (\<forall>found. iniParseFile env configFile = Inr found \<longrightarrow> optTLSCertPath found = None)
            \<longrightarrow> TLSCertPath c = Replace1 (defaultDcrlndTLSCertPath env) ''testnet'' []"
    by (simp add: c_def parsed' cfg1_def initial applyOptions_fields orElse_None
        split: sum.splits)
  have macDefault: "optMacaroonPath opts = None \<and>
            (\<forall>found. iniParseFile env configFile = Inr found \<longrightarrow> optMacaroonPath found = None)
            \<longrightarrow> MacaroonPath c = Replace1 (defaultDcrlndMacaroonPath env) ''testnet'' []"
    by (simp add: c_def parsed' cfg1_def initial applyOptions_fields orElse_None
        split: sum.splits)
  have fetch: "\<forall>client nodeInfo chain0 others.
              GetInfo client = Inr nodeInfo \<and> Chains nodeInfo = chain0 # others \<and>
              Chain.Network chain0 \<noteq> [] \<longrightarrow>
              snd (fetchHomePage client c) =
                Inl (Error (''dcrlnd and dcrlnhub are set in different networks <dcrlnd: '' @
                            Chain.Network chain0 @ '' / dcrlnhub: >''))"
    using fetchHomePage_unlabelled [OF c(1)] by (auto simp add: differentNetworks_def)
  have len: "length ''testnet'' = 7"
    by simp
  have first: "\<forall>pre post.
      (\<forall>i<length pre. take 7 (drop i (pre @ ''testnet'' @ post)) \<noteq> ''testnet'') \<longrightarrow>
      Replace1 (pre @ ''testnet'' @ post) ''testnet'' [] = pre @ post"
  proof (intro allI impI)
    fix pre post
    assume "\<forall>i<length pre. take 7 (drop i (pre @ ''testnet'' @ post)) \<noteq> ''testnet''"
    then have "\<forall>i<length pre.
        take (length ''testnet'') (drop i (pre @ ''testnet'' @ post)) \<noteq> ''testnet''"
      by (simp only: len)
    then have "Replace1 (pre @ ''testnet'' @ post) ''testnet'' [] = pre @ [] @ post"
      by (rule Replace1_first [rotated]) simp
    then show "Replace1 (pre @ ''testnet'' @ post) ''testnet'' [] = pre @ post"
      by (simp only: append_Nil)
  qed
  have absent: "\<forall>path.
      (\<forall>i<length path. take 7 (drop i path) \<noteq> ''testnet'') \<longrightarrow>
      Replace1 path ''testnet'' [] = path"
  proof (intro allI impI)
    fix path
    assume "\<forall>i<length path. take 7 (drop i path) \<noteq> ''testnet''"
    then have "\<forall>i<length path. take (length ''testnet'') (drop i path) \<noteq> ''testnet''"
      by (simp only: len)
    then show "Replace1 path ''testnet'' [] = path"
      by (rule Replace1_absent [rotated]) simp
  qed
  show ?thesis
    apply (rule exI [of _ trace], rule exI [of _ c])
    apply (intro conjI)
            apply (rule run')
           apply (rule c_def)
          apply (rule c)+
        apply (rule certDefault)
       apply (rule macDefault)
      apply (rule fetch)
     apply (rule first)
    apply (rule absent)
    done
qed

theorem loadConfig_no_network_flag_witness:
  "loadConfig plainEnv =
     ([InitLogRotator ''/home/hub/.dcrlnhub/logs/decred//dcrlnhub.log'',
       SetLogLevels ''info'',
       Log LvlWarn
         (Str ''open /home/hub/.dcrlnhub/dcrlnhub.conf: no such file or directory'')],
      ''/home/hub/.dcrlnhub/logs/decred//dcrlnhub.log'', Inr (plainConfig, [])) \<and>
   config.Network plainConfig = [] \<and>
   snd (fetchHomePage scenarioClient plainConfig) =
     Inl (Error ''dcrlnd and dcrlnhub are set in different networks <dcrlnd: testnet / dcrlnhub: >'') \<and>
   loadConfig httpsEnv =
     ([InitLogRotator ''/home/hub/.dcrlnhub/logs/decred//dcrlnhub.log'',
       SetLogLevels ''info'',
       Log LvlWarn
         (Str ''open /home/hub/.dcrlnhub/dcrlnhub.conf: no such file or directory'')],
      ''/home/hub/.dcrlnhub/logs/decred//dcrlnhub.log'',
      Inr (plainConfig\<lparr>UseLeHTTPS := True, Domain := ''hub.example.org''\<rparr>, [])) \<and>
   snd (fetchHomePage scenarioClient
          (plainConfig\<lparr>UseLeHTTPS := True, Domain := ''hub.example.org''\<rparr>)) =
     Inl (Error ''dcrlnd and dcrlnhub are set in different networks <dcrlnd: testnet / dcrlnhub: >'')"
  using loadConfig_no_network_flag [of "\<lparr>ConfigFile = [], BindAddr = defaultBindAddr, RPCHost = [],
       TLSCertPath = defaultDcrlndTLSCertPath plainEnv,
       MacaroonPath = defaultDcrlndMacaroonPath plainEnv,
       UseLeHTTPS = defaultUseLeHTTPS, Domain = [], config.Network = [],
       MainNet = False, TestNet = False, SimNet = False\<rparr>" plainEnv
       "defaultConfigFile plainEnv"
       "\<lparr>ConfigFile = [], BindAddr = defaultBindAddr, RPCHost = [],
       TLSCertPath = defaultDcrlndTLSCertPath plainEnv,
       MacaroonPath = defaultDcrlndMacaroonPath plainEnv,
       UseLeHTTPS = defaultUseLeHTTPS, Domain = [], config.Network = [],
       MainNet = False, TestNet = False, SimNet = False\<rparr>" noOptions "[]"]
    loadConfig_no_network_flag [of "\<lparr>ConfigFile = [], BindAddr = defaultBindAddr, RPCHost = [],
       TLSCertPath = defaultDcrlndTLSCertPath httpsEnv,
       MacaroonPath = defaultDcrlndMacaroonPath httpsEnv,
       UseLeHTTPS = defaultUseLeHTTPS, Domain = [], config.Network = [],
       MainNet = False, TestNet = False, SimNet = False\<rparr>" httpsEnv
       "defaultConfigFile httpsEnv"
       "\<lparr>ConfigFile = [], BindAddr = defaultBindAddr, RPCHost = [],
       TLSCertPath = defaultDcrlndTLSCertPath httpsEnv,
       MacaroonPath = defaultDcrlndMacaroonPath httpsEnv,
       UseLeHTTPS = True, Domain = ''hub.example.org'', config.Network = [],
       MainNet = False, TestNet = False, SimNet = False\<rparr>" httpsOptions "[]"]
  by (simp add: loadConfig_def plainEnv_def httpsEnv_def httpsOptions_def plainConfig_def
      noOptions_def applyOptions_def orElse_def defaultBindAddr_def defaultUseLeHTTPS_def
      defaultLogLevel_def fetchHomePage_def scenarioClient_def scenarioInfo_def Let_def
      differentNetworks_def)

end
